theory Spec2Isabelle
  imports Complex_Main
begin

section \<open>JavaScript numbers\<close>

text \<open>
  The values of the JavaScript type \<open>number\<close>: \<open>NaN\<close>, the finite numbers and the two
  infinities. A finite number is modelled as the real it denotes: rounding to binary64,
  overflow of a huge literal to \<open>Infinity\<close> and the sign of zero are not modelled. The
  properties below are about which strategy is built from which declaration and about
  the operations applied to the parsed number, not about rounding.
\<close>

datatype jsnum = NaN | Fin real | PosInf | NegInf

text \<open>Unary minus, \<open>*\<close> and \<open>/\<close> of JavaScript numbers.\<close>

fun jneg :: "jsnum \<Rightarrow> jsnum" where
  "jneg NaN = NaN"
| "jneg (Fin a) = Fin (- a)"
| "jneg PosInf = NegInf"
| "jneg NegInf = PosInf"

fun jmul :: "jsnum \<Rightarrow> jsnum \<Rightarrow> jsnum" where
  "jmul NaN y = NaN"
| "jmul x NaN = NaN"
| "jmul (Fin a) (Fin b) = Fin (a * b)"
| "jmul (Fin a) PosInf = (if a = 0 then NaN else if 0 < a then PosInf else NegInf)"
| "jmul (Fin a) NegInf = (if a = 0 then NaN else if 0 < a then NegInf else PosInf)"
| "jmul PosInf (Fin b) = (if b = 0 then NaN else if 0 < b then PosInf else NegInf)"
| "jmul NegInf (Fin b) = (if b = 0 then NaN else if 0 < b then NegInf else PosInf)"
| "jmul PosInf PosInf = PosInf"
| "jmul PosInf NegInf = NegInf"
| "jmul NegInf PosInf = NegInf"
| "jmul NegInf NegInf = PosInf"

fun jdiv :: "jsnum \<Rightarrow> jsnum \<Rightarrow> jsnum" where
  "jdiv NaN y = NaN"
| "jdiv x NaN = NaN"
| "jdiv (Fin a) (Fin b) =
     (if b = 0 then (if a = 0 then NaN else if 0 < a then PosInf else NegInf)
      else Fin (a / b))"
| "jdiv (Fin a) PosInf = Fin 0"
| "jdiv (Fin a) NegInf = Fin 0"
| "jdiv PosInf (Fin b) = (if 0 \<le> b then PosInf else NegInf)"
| "jdiv NegInf (Fin b) = (if 0 \<le> b then NegInf else PosInf)"
| "jdiv PosInf y = NaN"
| "jdiv NegInf y = NaN"

text \<open>The comparisons \<open><=\<close> and \<open>>=\<close>: false as soon as one side is \<open>NaN\<close>.\<close>

fun jle :: "jsnum \<Rightarrow> jsnum \<Rightarrow> bool" where
  "jle NaN y = False"
| "jle x NaN = False"
| "jle NegInf y = True"
| "jle x PosInf = True"
| "jle (Fin a) (Fin b) = (a \<le> b)"
| "jle PosInf y = False"
| "jle x NegInf = False"

definition jge :: "jsnum \<Rightarrow> jsnum \<Rightarrow> bool" where
  "jge x y = jle y x"

text \<open>\<open>typeof\<close> of a value of type \<open>number\<close>, \<open>NaN\<close> and the infinities included.\<close>

definition typeof :: "jsnum \<Rightarrow> string" where
  "typeof n = ''number''"

section \<open>JavaScript strings and the conversions to number\<close>

text \<open>
  A string is the list of its code units; only code units below 256 are representable
  here, so of the white space that \<open>String.prototype.trim\<close> strips, the characters beyond
  U+00A0 are out of the model.
\<close>

definition isWhiteSpace :: "char \<Rightarrow> bool" where
  "isWhiteSpace c =
     (c = CHR 0x09 \<or> c = CHR 0x0A \<or> c = CHR 0x0B \<or> c = CHR 0x0C \<or> c = CHR 0x0D \<or>
      c = CHR 0x20 \<or> c = CHR 0xA0)"

definition trimStart :: "string \<Rightarrow> string" where
  "trimStart s = dropWhile isWhiteSpace s"

definition trim :: "string \<Rightarrow> string" where
  "trim s = rev (dropWhile isWhiteSpace (rev (dropWhile isWhiteSpace s)))"

text \<open>\<open>s.slice(0, -k)\<close>: all but the last \<open>k\<close> code units, the empty string when there
  are fewer than \<open>k\<close>.\<close>

definition slice0 :: "string \<Rightarrow> nat \<Rightarrow> string" where
  "slice0 s k = take (length s - k) s"

text \<open>
  Modelled from the spec: \<open>endsWith\<close> of \<open>helpers/string\<close>, which the sources do not
  include; the spec speaks of "a string ending in" the suffix.
\<close>

definition endsWith :: "string \<Rightarrow> string \<Rightarrow> bool" where
  "endsWith haystack needle =
     (length needle \<le> length haystack \<and>
      drop (length haystack - length needle) haystack = needle)"

text \<open>Digits. \<open>digitOf\<close> is the value of a digit of any radix up to 16.\<close>

definition digitOf :: "char \<Rightarrow> nat option" where
  "digitOf c =
     (let n = (of_char c :: nat) in
      if 48 \<le> n \<and> n \<le> 57 then Some (n - 48)
      else if 97 \<le> n \<and> n \<le> 102 then Some (n - 87)
      else if 65 \<le> n \<and> n \<le> 70 then Some (n - 55)
      else None)"

definition isDigitIn :: "nat \<Rightarrow> char \<Rightarrow> bool" where
  "isDigitIn radix c = (case digitOf c of Some d \<Rightarrow> d < radix | None \<Rightarrow> False)"

definition digitsVal :: "nat \<Rightarrow> string \<Rightarrow> nat" where
  "digitsVal radix ds =
     foldl (\<lambda>acc c. radix * acc + (case digitOf c of Some d \<Rightarrow> d | None \<Rightarrow> 0)) 0 ds"

text \<open>
  The grammar \<open>StrDecimalLiteral\<close> of ECMAScript, as a scanner that returns the value of
  the longest prefix that is such a literal, and the rest of the string:
  an optional sign, then \<open>Infinity\<close>, or digits with an optional fraction and an optional
  exponent, or a dot followed by digits and an optional exponent.
\<close>

definition scanExponent :: "string \<Rightarrow> int \<times> string" where
  "scanExponent s =
     (case s of
        [] \<Rightarrow> (0, s)
      | c # t \<Rightarrow>
          if c = CHR ''e'' \<or> c = CHR ''E'' then
            (let neg = (case t of [] \<Rightarrow> False | d # u \<Rightarrow> d = CHR ''-'');
                 u = (case t of [] \<Rightarrow> t
                      | d # u \<Rightarrow> if d = CHR ''-'' \<or> d = CHR ''+'' then u else t);
                 ds = takeWhile (isDigitIn 10) u
             in if ds = [] then (0, s)
                else (if neg then - int (digitsVal 10 ds) else int (digitsVal 10 ds),
                      dropWhile (isDigitIn 10) u))
          else (0, s))"

definition decimalValue :: "string \<Rightarrow> string \<Rightarrow> int \<Rightarrow> real" where
  "decimalValue ip fp e =
     (let m = real (digitsVal 10 ip) + real (digitsVal 10 fp) / 10 ^ length fp
      in if 0 \<le> e then m * 10 ^ nat e else m / 10 ^ nat (- e))"

definition scanUnsignedDecimal :: "string \<Rightarrow> (jsnum \<times> string) option" where
  "scanUnsignedDecimal s =
     (if take 8 s = ''Infinity'' then Some (PosInf, drop 8 s)
      else
        (let ip = takeWhile (isDigitIn 10) s; r1 = dropWhile (isDigitIn 10) s in
         case r1 of
           [] \<Rightarrow> if ip = [] then None else Some (Fin (decimalValue ip [] 0), [])
         | c # r2 \<Rightarrow>
             if c = CHR ''.'' then
               (let fp = takeWhile (isDigitIn 10) r2; r3 = dropWhile (isDigitIn 10) r2 in
                if ip = [] \<and> fp = [] then None
                else (case scanExponent r3 of (e, r4) \<Rightarrow> Some (Fin (decimalValue ip fp e), r4)))
             else if ip = [] then None
             else (case scanExponent r1 of (e, r4) \<Rightarrow> Some (Fin (decimalValue ip [] e), r4))))"

definition scanDecimal :: "string \<Rightarrow> (jsnum \<times> string) option" where
  "scanDecimal s =
     (case s of
        [] \<Rightarrow> None
      | c # t \<Rightarrow>
          if c = CHR ''+'' then scanUnsignedDecimal t
          else if c = CHR ''-'' then
            (case scanUnsignedDecimal t of None \<Rightarrow> None | Some (v, r) \<Rightarrow> Some (jneg v, r))
          else scanUnsignedDecimal s)"

text \<open>\<open>Number.parseFloat\<close>: leading white space is skipped, the longest prefix that is a
  decimal literal is read, and a string with no such prefix gives \<open>NaN\<close>.\<close>

definition parseFloat :: "string \<Rightarrow> jsnum" where
  "parseFloat s =
     (case scanDecimal (trimStart s) of None \<Rightarrow> NaN | Some (v, r) \<Rightarrow> v)"

text \<open>
  \<open>Number\<close> applied to a string: white space is stripped on both sides, the empty string
  is 0, a 0x, 0o or 0b prefix introduces an unsigned literal of that radix, and anything
  but a complete literal is \<open>NaN\<close>.
\<close>

definition radixLiteral :: "nat \<Rightarrow> string \<Rightarrow> jsnum" where
  "radixLiteral radix ds =
     (if ds \<noteq> [] \<and> list_all (isDigitIn radix) ds then Fin (real (digitsVal radix ds))
      else NaN)"

definition Number :: "string \<Rightarrow> jsnum" where
  "Number s =
     (let t = trim s in
      if t = [] then Fin 0
      else if take 2 t = ''0x'' \<or> take 2 t = ''0X'' then radixLiteral 16 (drop 2 t)
      else if take 2 t = ''0o'' \<or> take 2 t = ''0O'' then radixLiteral 8 (drop 2 t)
      else if take 2 t = ''0b'' \<or> take 2 t = ''0B'' then radixLiteral 2 (drop 2 t)
      else (case scanDecimal t of
              None \<Rightarrow> NaN
            | Some (v, r) \<Rightarrow> if r = [] then v else NaN))"

section \<open>The layout context\<close>

text \<open>
  Modelled from the spec: the class \<open>LayoutService\<close> of \<open>layout-service\<close>, which the
  sources do not include. The spec gives it as a single mutable cell with \<open>getSize\<close> and
  \<open>setSize\<close>. Layout services live in a store, and a strategy holds the address of the
  one it reads, as the class holds a reference.
\<close>

record LayoutService =
  currentSize :: jsnum

definition getSize :: "LayoutService \<Rightarrow> jsnum" where
  "getSize ls = currentSize ls"

definition setSize :: "jsnum \<Rightarrow> LayoutService \<Rightarrow> LayoutService" where
  "setSize n ls = ls\<lparr>currentSize := n\<rparr>"

type_synonym store = "nat \<Rightarrow> LayoutService"

section \<open>Size strategies\<close>

text \<open>The three classes that implement \<open>Layout\<close>. \<open>getPreferredSize\<close> returns
  \<open>number | undefined\<close>: \<open>None\<close> is \<open>undefined\<close>.\<close>

datatype Layout =
    PixelLayout jsnum
  | ProportionLayout jsnum nat
  | NullLayout

fun getPreferredSize :: "store \<Rightarrow> Layout \<Rightarrow> jsnum option" where
  "getPreferredSize h (PixelLayout sz) = Some sz"
| "getPreferredSize h (ProportionLayout proportion layoutService) =
     Some (jmul proportion (getSize (h layoutService)))"
| "getPreferredSize h NullLayout = None"

section \<open>Panes\<close>

text \<open>
  Modelled from the spec: the enumeration \<open>LayoutPriority\<close> of \<open>split-view\<close>, which the
  sources do not include; the spec lists its values as Low, Normal and High.
\<close>

datatype LayoutPriority = Low | Normal | High

text \<open>A declared preferred size, of type \<open>number | string | undefined\<close>.\<close>

datatype PreferredSizeDecl = PNumber jsnum | PString string | PUndefined

text \<open>
  \<open>PaneViewOptions\<close>. An optional property is an \<open>option\<close>, \<open>None\<close> when it is omitted or
  \<open>undefined\<close>. The element is an opaque handle. The fields of the options carry the
  prefix \<open>o_\<close> and those of the pane the prefix \<open>p_\<close>.
\<close>

record PaneViewOptions =
  o_element :: nat
  o_minimumSize :: "jsnum option"
  o_maximumSize :: "jsnum option"
  o_priority :: "LayoutPriority option"
  o_preferredSize :: PreferredSizeDecl
  o_snap :: "bool option"

text \<open>The fields of \<open>PaneView\<close>; \<open>p_layoutService\<close> is the address of the layout service in
  the store.\<close>

record PaneView =
  p_minimumSize :: jsnum
  p_maximumSize :: jsnum
  p_element :: nat
  p_priority :: "LayoutPriority option"
  p_snap :: bool
  p_layoutService :: nat
  p_layoutStrategy :: Layout

text \<open>The accessors, in the order of the class.\<close>

definition get_preferredSize :: "store \<Rightarrow> PaneView \<Rightarrow> jsnum option" where
  "get_preferredSize h this = getPreferredSize h (p_layoutStrategy this)"

definition set_preferredSize :: "PreferredSizeDecl \<Rightarrow> PaneView \<Rightarrow> PaneView" where
  "set_preferredSize preferredSize this =
     (case preferredSize of
        PNumber n \<Rightarrow> this\<lparr>p_layoutStrategy := PixelLayout n\<rparr>
      | PString str \<Rightarrow>
          (let trimmedPreferredSize = trim str in
           if endsWith trimmedPreferredSize ''%'' then
             (let proportion = jdiv (Number (slice0 trimmedPreferredSize 1)) (Fin 100)
              in this\<lparr>p_layoutStrategy := ProportionLayout proportion (p_layoutService this)\<rparr>)
           else if endsWith trimmedPreferredSize ''px'' then
             (let pixels = jdiv (Number (slice0 trimmedPreferredSize 2)) (Fin 100)
              in this\<lparr>p_layoutStrategy := PixelLayout pixels\<rparr>)
           else if typeof (parseFloat trimmedPreferredSize) = ''number'' then
             (let number = parseFloat trimmedPreferredSize
              in this\<lparr>p_layoutStrategy := PixelLayout number\<rparr>)
           else this\<lparr>p_layoutStrategy := NullLayout\<rparr>)
      | PUndefined \<Rightarrow> this\<lparr>p_layoutStrategy := NullLayout\<rparr>)"

definition get_priority :: "PaneView \<Rightarrow> LayoutPriority option" where
  "get_priority this = p_priority this"

definition set_priority :: "LayoutPriority option \<Rightarrow> PaneView \<Rightarrow> PaneView" where
  "set_priority priority this =
     this\<lparr>p_priority := Some (case priority of Some p \<Rightarrow> p | None \<Rightarrow> Normal)\<rparr>"

definition get_snap :: "PaneView \<Rightarrow> bool" where
  "get_snap this = p_snap this"

definition set_snap :: "bool option \<Rightarrow> PaneView \<Rightarrow> PaneView" where
  "set_snap snap this = this\<lparr>p_snap := (case snap of Some b \<Rightarrow> b | None \<Rightarrow> False)\<rparr>"

definition get_minimumSize :: "PaneView \<Rightarrow> jsnum" where
  "get_minimumSize this = p_minimumSize this"

definition set_minimumSize :: "jsnum option \<Rightarrow> PaneView \<Rightarrow> PaneView" where
  "set_minimumSize minimumSize this =
     this\<lparr>p_minimumSize := (case minimumSize of Some n \<Rightarrow> n | None \<Rightarrow> Fin 30)\<rparr>"

definition get_maximumSize :: "PaneView \<Rightarrow> jsnum" where
  "get_maximumSize this = p_maximumSize this"

definition set_maximumSize :: "jsnum option \<Rightarrow> PaneView \<Rightarrow> PaneView" where
  "set_maximumSize maximumSize this =
     this\<lparr>p_maximumSize := (case maximumSize of Some n \<Rightarrow> n | None \<Rightarrow> PosInf)\<rparr>"

text \<open>
  The constructor. The strategy is chosen by code of its own, which does not go through
  the setter; \<open>constructor_layoutStrategy\<close> is that part. The object starts from the
  field initialisers of the class, and the four other properties are assigned through
  their setters in the order of the source (they touch different fields, so the
  strategy, which has no initialiser, is filled in when the record is built).
\<close>

definition constructor_layoutStrategy :: "nat \<Rightarrow> PreferredSizeDecl \<Rightarrow> Layout" where
  "constructor_layoutStrategy this_layoutService options_preferredSize =
     (case options_preferredSize of
        PNumber n \<Rightarrow> PixelLayout n
      | PString str \<Rightarrow>
          (let preferredSize = trim str in
           if endsWith preferredSize ''%'' then
             (let proportion = jdiv (Number (slice0 preferredSize 1)) (Fin 100)
              in ProportionLayout proportion this_layoutService)
           else if endsWith preferredSize ''px'' then
             (let pixels = jdiv (Number (slice0 preferredSize 2)) (Fin 100)
              in PixelLayout pixels)
           else if typeof (parseFloat preferredSize) = ''number'' then
             (let number = parseFloat preferredSize
              in PixelLayout number)
           else NullLayout)
      | PUndefined \<Rightarrow> NullLayout)"

definition new_PaneView :: "nat \<Rightarrow> PaneViewOptions \<Rightarrow> PaneView" where
  "new_PaneView layoutService options =
     (let this = \<lparr>p_minimumSize = Fin 0, p_maximumSize = PosInf, p_element = o_element options,
                  p_priority = None, p_snap = False, p_layoutService = layoutService,
                  p_layoutStrategy =
                    constructor_layoutStrategy layoutService (o_preferredSize options)\<rparr>;
          this = set_minimumSize (o_minimumSize options) this;
          this = set_maximumSize (o_maximumSize options) this;
          this = set_priority (o_priority options) this;
          this = set_snap (o_snap options) this
      in this)"

text \<open>A call of one of the five setters, and a sequence of such calls on a pane.\<close>

datatype SetterCall =
    SetPreferredSize PreferredSizeDecl
  | SetPriority "LayoutPriority option"
  | SetSnap "bool option"
  | SetMinimumSize "jsnum option"
  | SetMaximumSize "jsnum option"

fun assign :: "PaneView \<Rightarrow> SetterCall \<Rightarrow> PaneView" where
  "assign this (SetPreferredSize v) = set_preferredSize v this"
| "assign this (SetPriority v) = set_priority v this"
| "assign this (SetSnap v) = set_snap v this"
| "assign this (SetMinimumSize v) = set_minimumSize v this"
| "assign this (SetMaximumSize v) = set_maximumSize v this"

definition assignments :: "PaneView \<Rightarrow> SetterCall list \<Rightarrow> PaneView" where
  "assignments this cs = foldl assign this cs"

section \<open>The sash size\<close>

text \<open>
  \<open>clamp\<close> of the package lodash.clamp with its three arguments numbers: a \<open>NaN\<close> bound
  counts as 0, and a \<open>NaN\<close> number is returned as it is; any other number is cut at the
  upper bound first and at the lower bound next.
\<close>

definition clamp :: "jsnum \<Rightarrow> jsnum \<Rightarrow> jsnum \<Rightarrow> jsnum" where
  "clamp number lower upper =
     (let upper = (if upper = NaN then Fin 0 else upper);
          lower = (if lower = NaN then Fin 0 else lower)
      in if number = NaN then number
         else (let number = (if jle number upper then number else upper);
                   number = (if jge number lower then number else lower)
               in number))"

text \<open>
  What \<open>setSashSize\<close> writes: the custom properties of the style of the document element
  and the global sash size. A property value is the concatenation of a number and
  \<open>"px"\<close>, kept as that number.

  Modelled from the spec: \<open>setGlobalSashSize\<close> of \<open>sash\<close>, which the sources do not
  include; the spec gives it as the setter of the one process-wide sash size.
\<close>

datatype CssValue = Px jsnum

record Globals =
  documentElementStyle :: "string \<rightharpoonup> CssValue"
  globalSashSize :: jsnum

definition setProperty :: "string \<Rightarrow> CssValue \<Rightarrow> Globals \<Rightarrow> Globals" where
  "setProperty name v g = g\<lparr>documentElementStyle := (documentElementStyle g)(name \<mapsto> v)\<rparr>"

definition setGlobalSashSize :: "jsnum \<Rightarrow> Globals \<Rightarrow> Globals" where
  "setGlobalSashSize sz g = g\<lparr>globalSashSize := sz\<rparr>"

definition setSashSize :: "jsnum \<Rightarrow> Globals \<Rightarrow> Globals" where
  "setSashSize sashSize g =
     (let sz = clamp sashSize (Fin 4) (Fin 20);
          hoverSize = clamp sashSize (Fin 1) (Fin 8);
          g = setProperty ''--sash-size'' (Px sz) g;
          g = setProperty ''--sash-hover-size'' (Px hoverSize) g
      in setGlobalSashSize sz g)"

section \<open>The size bounds as the host assigned them\<close>

text \<open>
  These are not code of the pane. They name what the property of the bounds speaks of:
  the values that the options and a sequence of setter calls assigned to \<open>minimumSize\<close>
  and to \<open>maximumSize\<close>, in order, the value each getter is expected to return after
  them (the last assigned number, or the default of the setter), and the ordering
  \<open>0 \<le> minimumSize \<le> maximumSize\<close> of the data model.
\<close>

definition minimumAssignments :: "SetterCall list \<Rightarrow> jsnum option list" where
  "minimumAssignments cs =
     concat (map (\<lambda>c. case c of SetMinimumSize v \<Rightarrow> [v] | _ \<Rightarrow> []) cs)"

definition maximumAssignments :: "SetterCall list \<Rightarrow> jsnum option list" where
  "maximumAssignments cs =
     concat (map (\<lambda>c. case c of SetMaximumSize v \<Rightarrow> [v] | _ \<Rightarrow> []) cs)"

definition lastMinimumSize :: "PaneViewOptions \<Rightarrow> SetterCall list \<Rightarrow> jsnum" where
  "lastMinimumSize opts cs =
     (case last (o_minimumSize opts # minimumAssignments cs) of
        Some n \<Rightarrow> n | None \<Rightarrow> Fin 30)"

definition lastMaximumSize :: "PaneViewOptions \<Rightarrow> SetterCall list \<Rightarrow> jsnum" where
  "lastMaximumSize opts cs =
     (case last (o_maximumSize opts # maximumAssignments cs) of
        Some n \<Rightarrow> n | None \<Rightarrow> PosInf)"

definition sizesOrdered :: "PaneView \<Rightarrow> bool" where
  "sizesOrdered p =
     (jle (Fin 0) (get_minimumSize p) \<and> jle (get_minimumSize p) (get_maximumSize p))"

section \<open>Basic facts\<close>

lemmas scan_defs = Number_def parseFloat_def trimStart_def trim_def isWhiteSpace_def slice0_def
  endsWith_def scanDecimal_def scanUnsignedDecimal_def scanExponent_def decimalValue_def
  digitsVal_def isDigitIn_def digitOf_def radixLiteral_def typeof_def

lemmas pane_defs = new_PaneView_def constructor_layoutStrategy_def set_preferredSize_def
  set_minimumSize_def set_maximumSize_def set_priority_def set_snap_def
  get_preferredSize_def get_minimumSize_def get_maximumSize_def get_priority_def get_snap_def

text \<open>No setter changes the layout service of a pane.\<close>

lemma assign_layoutService: "p_layoutService (assign p c) = p_layoutService p"
  by (cases c) (simp_all add: pane_defs Let_def split: PreferredSizeDecl.split)

lemma assignments_layoutService: "p_layoutService (assignments p cs) = p_layoutService p"
  unfolding assignments_def
  by (induction cs arbitrary: p) (simp_all add: assign_layoutService)

lemma new_PaneView_layoutService: "p_layoutService (new_PaneView ls opts) = ls"
  by (simp add: pane_defs Let_def)

text \<open>The strategy of a new pane is the one the constructor chose, and the setter chooses
  by the same case distinction, applied to the layout service of the pane.\<close>

lemma new_PaneView_layoutStrategy:
  "p_layoutStrategy (new_PaneView ls opts) =
     constructor_layoutStrategy ls (o_preferredSize opts)"
  by (simp add: new_PaneView_def set_minimumSize_def set_maximumSize_def set_priority_def
      set_snap_def Let_def)

lemma set_preferredSize_layoutStrategy:
  "p_layoutStrategy (set_preferredSize v p) = constructor_layoutStrategy (p_layoutService p) v"
  by (simp add: set_preferredSize_def constructor_layoutStrategy_def Let_def
      split: PreferredSizeDecl.split)

lemma assignments_snoc: "assignments p (cs @ [c]) = assign (assignments p cs) c"
  by (simp add: assignments_def)

lemma assignments_Nil: "assignments p [] = p"
  by (simp add: assignments_def)

text \<open>A string that ends in \<open>px\<close> does not end in \<open>%\<close>, so the second branch decides it.\<close>

lemma endsWith_last: "endsWith t (xs @ [c]) \<Longrightarrow> t \<noteq> [] \<and> last t = c"
proof -
  assume a: "endsWith t (xs @ [c])"
  define k where "k = length t - length (xs @ [c])"
  from a have d: "drop k t = xs @ [c]"
    by (simp add: endsWith_def k_def)
  have "take k t @ drop k t = t"
    by (rule append_take_drop_id)
  with d have "t = (take k t @ xs) @ [c]"
    by simp
  then show ?thesis
    by (metis last_snoc snoc_eq_iff_butlast)
qed

lemma endsWith_px_not_percent: "endsWith t ''px'' \<Longrightarrow> \<not> endsWith t ''%''"
  using endsWith_last [of t "''p''" "CHR ''x''"] endsWith_last [of t "[]" "CHR ''%''"]
  by auto

section \<open>Strings with an absolute unit\<close>

text \<open>What the \<open>px\<close> branch builds, for every string: the number before the suffix,
  divided by 100.\<close>

lemma px_strategy:
  "endsWith (trim s) ''px'' \<Longrightarrow>
   constructor_layoutStrategy ls (PString s) =
     PixelLayout (jdiv (Number (slice0 (trim s) 2)) (Fin 100))"
  by (simp add: constructor_layoutStrategy_def Let_def endsWith_px_not_percent)

text \<open>
  Claim C1: a preferred size that is a string ending in \<open>px\<close>, such as \<open>120px\<close>, given to
  the constructor or assigned through the setter, builds a Fixed strategy whose preferred
  size is the number before the suffix, 120 here. The code does not do this: both the
  constructor and the setter divide the parsed number by 100, as the percentage branch
  above them does, so \<open>120px\<close> gives the preferred size 1.2, whatever the layout context.
\<close>

theorem px_preferred_size_divided_by_100:
  "get_preferredSize h (new_PaneView ls (opts\<lparr>o_preferredSize := PString ''120px''\<rparr>)) =
     Some (Fin (6 / 5))
   \<and> get_preferredSize h (set_preferredSize (PString ''120px'') p) = Some (Fin (6 / 5))"
  by (simp add: get_preferredSize_def new_PaneView_layoutStrategy
      set_preferredSize_layoutStrategy constructor_layoutStrategy_def scan_defs)

section \<open>Malformed strings\<close>

text \<open>No string reaches the last branch of the case distinction: the test before it is
  true of everything \<open>parseFloat\<close> returns.\<close>

lemma string_never_Unset: "constructor_layoutStrategy ls (PString s) \<noteq> NullLayout"
  by (simp add: constructor_layoutStrategy_def typeof_def Let_def)

text \<open>
  Claim C2: parsing a preferred size never raises, and a string that is neither a
  percentage, nor a number with the suffix \<open>px\<close>, nor a bare number gives the strategy
  Unset, so that the getter returns \<open>undefined\<close>. The code does not do this for the string
  \<open>abc\<close>: \<open>parseFloat\<close> returns \<open>NaN\<close>, whose type is \<open>number\<close>, so the constructor and the
  setter build the Fixed strategy of \<open>NaN\<close> and the getter returns \<open>NaN\<close>.
\<close>

theorem malformed_string_is_Fixed_NaN:
  "p_layoutStrategy (new_PaneView ls (opts\<lparr>o_preferredSize := PString ''abc''\<rparr>)) =
     PixelLayout NaN
   \<and> get_preferredSize h (new_PaneView ls (opts\<lparr>o_preferredSize := PString ''abc''\<rparr>)) =
     Some NaN
   \<and> p_layoutStrategy (set_preferredSize (PString ''abc'') p) = PixelLayout NaN
   \<and> get_preferredSize h (set_preferredSize (PString ''abc'') p) = Some NaN"
  by (simp add: get_preferredSize_def new_PaneView_layoutStrategy
      set_preferredSize_layoutStrategy constructor_layoutStrategy_def scan_defs)

section \<open>Percentages\<close>

text \<open>
  Claim C3: for a string that ends in \<open>%\<close> after trimming and whose leading part is the
  number \<open>n\<close>, the constructor (and the setter) builds the Proportional strategy of the
  fraction \<open>n / 100\<close> on the layout service of the pane, and the preferred size is that
  fraction times the size the layout service holds when the getter is called: in any
  store \<open>h\<close>, and so after a \<open>setSize\<close> on the service, the product with the new size.
\<close>

theorem percent_is_Proportional:
  assumes "endsWith (trim s) ''%''" and "Number (slice0 (trim s) 1) = Fin n"
  shows "p_layoutStrategy (new_PaneView ls (opts\<lparr>o_preferredSize := PString s\<rparr>)) =
      ProportionLayout (Fin (n / 100)) ls
    \<and> get_preferredSize h (new_PaneView ls (opts\<lparr>o_preferredSize := PString s\<rparr>)) =
      Some (jmul (Fin (n / 100)) (getSize (h ls)))
    \<and> get_preferredSize (h(ls := setSize m (h ls)))
        (new_PaneView ls (opts\<lparr>o_preferredSize := PString s\<rparr>)) =
      Some (jmul (Fin (n / 100)) m)
    \<and> p_layoutStrategy (set_preferredSize (PString s) p) =
      ProportionLayout (Fin (n / 100)) (p_layoutService p)
    \<and> get_preferredSize h (set_preferredSize (PString s) p) =
      Some (jmul (Fin (n / 100)) (getSize (h (p_layoutService p))))"
proof -
  have c: "constructor_layoutStrategy a (PString s) = ProportionLayout (Fin (n / 100)) a" for a
    using assms by (simp add: constructor_layoutStrategy_def Let_def)
  show ?thesis
    by (simp add: get_preferredSize_def new_PaneView_layoutStrategy
        set_preferredSize_layoutStrategy c getSize_def setSize_def)
qed

theorem percent_is_Proportional_witness:
  "endsWith (trim ''50%'') ''%'' \<and> Number (slice0 (trim ''50%'') 1) = Fin 50
   \<and> get_preferredSize (\<lambda>a. \<lparr>currentSize = Fin 200\<rparr>)
        (new_PaneView 0 \<lparr>o_element = 0, o_minimumSize = None, o_maximumSize = None,
           o_priority = None, o_preferredSize = PString ''50%'', o_snap = None\<rparr>) =
       Some (Fin 100)"
proof -
  have a: "endsWith (trim ''50%'') ''%''"
    by (simp add: scan_defs)
  have b: "Number (slice0 (trim ''50%'') 1) = Fin 50"
    by (simp add: scan_defs)
  from percent_is_Proportional [OF a b, of 0
      "\<lparr>o_element = 0, o_minimumSize = None, o_maximumSize = None, o_priority = None,
        o_preferredSize = PUndefined, o_snap = None\<rparr>"
      "\<lambda>a. \<lparr>currentSize = Fin 200\<rparr>"]
  show ?thesis
    using a b by (simp add: getSize_def)
qed

section \<open>Clamping the sash size\<close>

text \<open>
  Claim C5 as it is written, for every argument of type \<open>number\<close>, fails at \<open>NaN\<close>:
  \<open>clamp\<close> returns a \<open>NaN\<close> number as it is, so both properties and the global sash size
  become \<open>NaN\<close>, which lies in neither interval.
\<close>

theorem setSashSize_NaN_counterexample:
  "documentElementStyle
      (setSashSize NaN \<lparr>documentElementStyle = Map.empty, globalSashSize = Fin 4\<rparr>)
      ''--sash-size'' = Some (Px NaN)
   \<and> documentElementStyle
      (setSashSize NaN \<lparr>documentElementStyle = Map.empty, globalSashSize = Fin 4\<rparr>)
      ''--sash-hover-size'' = Some (Px NaN)
   \<and> globalSashSize
      (setSashSize NaN \<lparr>documentElementStyle = Map.empty, globalSashSize = Fin 4\<rparr>) = NaN
   \<and> \<not> (jle (Fin 4) (clamp NaN (Fin 4) (Fin 20)) \<and> jle (clamp NaN (Fin 4) (Fin 20)) (Fin 20))
   \<and> \<not> (jle (Fin 1) (clamp NaN (Fin 1) (Fin 8)) \<and> jle (clamp NaN (Fin 1) (Fin 8)) (Fin 8))"
  by (simp add: setSashSize_def setProperty_def setGlobalSashSize_def clamp_def Let_def)

text \<open>
  Claim C5, amended: for every number \<open>n\<close> other than \<open>NaN\<close>, that is for every finite
  number and for the two infinities, \<open>setSashSize n\<close> sets the thickness of the sash (the
  property \<open>--sash-size\<close>) to \<open>n\<close> clamped to the interval from 4 to 20, the thickness of
  the hover affordance (the property \<open>--sash-hover-size\<close>) to \<open>n\<close> clamped to the interval
  from 1 to 8, and makes the clamped thickness of the sash the global sash size; for
  \<open>NaN\<close> the two thicknesses and the global sash size are \<open>NaN\<close>.
\<close>

theorem setSashSize_clamps:
  "documentElementStyle (setSashSize (Fin r) g) ''--sash-size'' =
     Some (Px (Fin (max 4 (min 20 r))))
   \<and> documentElementStyle (setSashSize (Fin r) g) ''--sash-hover-size'' =
     Some (Px (Fin (max 1 (min 8 r))))
   \<and> globalSashSize (setSashSize (Fin r) g) = Fin (max 4 (min 20 r))
   \<and> documentElementStyle (setSashSize PosInf g) ''--sash-size'' = Some (Px (Fin 20))
   \<and> documentElementStyle (setSashSize PosInf g) ''--sash-hover-size'' = Some (Px (Fin 8))
   \<and> globalSashSize (setSashSize PosInf g) = Fin 20
   \<and> documentElementStyle (setSashSize NegInf g) ''--sash-size'' = Some (Px (Fin 4))
   \<and> documentElementStyle (setSashSize NegInf g) ''--sash-hover-size'' = Some (Px (Fin 1))
   \<and> globalSashSize (setSashSize NegInf g) = Fin 4
   \<and> documentElementStyle (setSashSize NaN g) ''--sash-size'' = Some (Px NaN)
   \<and> documentElementStyle (setSashSize NaN g) ''--sash-hover-size'' = Some (Px NaN)
   \<and> globalSashSize (setSashSize NaN g) = NaN"
proof -
  have fin: "clamp (Fin r) (Fin lo) (Fin hi) = Fin (max lo (min hi r))" for lo hi
    by (simp add: clamp_def jge_def Let_def max_def min_def)
  have pos: "clamp PosInf (Fin lo) (Fin hi) = Fin hi" if "lo \<le> hi" for lo hi
    using that by (simp add: clamp_def jge_def Let_def)
  have neg: "clamp NegInf (Fin lo) (Fin hi) = Fin lo" for lo hi
    by (simp add: clamp_def jge_def Let_def)
  have nan: "clamp NaN (Fin lo) (Fin hi) = NaN" for lo hi
    by (simp add: clamp_def Let_def)
  show ?thesis
    by (simp add: setSashSize_def setProperty_def setGlobalSashSize_def Let_def fin pos neg nan)
qed

section \<open>Fixed and Unset\<close>

text \<open>
  Claim C6: the preferred size of a Fixed strategy is the same constant on every call,
  whatever the layout context holds and however it changes, and the preferred size of an
  Unset strategy is \<open>undefined\<close> on every call.
\<close>

theorem Fixed_constant_Unset_undefined:
  "getPreferredSize h (PixelLayout n) = Some n
   \<and> getPreferredSize h' (PixelLayout n) = getPreferredSize h (PixelLayout n)
   \<and> getPreferredSize (h(a := setSize m (h a))) (PixelLayout n) = Some n
   \<and> getPreferredSize h NullLayout = None
   \<and> getPreferredSize (h(a := setSize m (h a))) NullLayout = None"
  by simp

section \<open>Bare numbers\<close>

text \<open>
  Claim C7: for a string that has neither the suffix \<open>%\<close> nor the suffix \<open>px\<close> and that
  \<open>parseFloat\<close> reads as a number, such as \<open>42\<close> or \<open>3.5\<close> between blanks, the constructor
  (and the setter) builds the Fixed strategy of that number, and the preferred size is
  that number.
\<close>

theorem bare_numeric_is_Fixed:
  assumes "\<not> endsWith (trim s) ''%''" and "\<not> endsWith (trim s) ''px''"
    and "parseFloat (trim s) \<noteq> NaN"
  shows "p_layoutStrategy (new_PaneView ls (opts\<lparr>o_preferredSize := PString s\<rparr>)) =
      PixelLayout (parseFloat (trim s))
    \<and> get_preferredSize h (new_PaneView ls (opts\<lparr>o_preferredSize := PString s\<rparr>)) =
      Some (parseFloat (trim s))
    \<and> p_layoutStrategy (set_preferredSize (PString s) p) = PixelLayout (parseFloat (trim s))
    \<and> get_preferredSize h (set_preferredSize (PString s) p) = Some (parseFloat (trim s))"
proof -
  have c: "constructor_layoutStrategy a (PString s) = PixelLayout (parseFloat (trim s))" for a
    using assms by (simp add: constructor_layoutStrategy_def typeof_def Let_def)
  show ?thesis
    by (simp add: get_preferredSize_def new_PaneView_layoutStrategy
        set_preferredSize_layoutStrategy c)
qed

theorem bare_numeric_is_Fixed_witness:
  "get_preferredSize (\<lambda>a. \<lparr>currentSize = Fin 200\<rparr>)
        (new_PaneView 0 \<lparr>o_element = 0, o_minimumSize = None, o_maximumSize = None,
           o_priority = None, o_preferredSize = PString ''42'', o_snap = None\<rparr>) =
      Some (Fin 42)
   \<and> get_preferredSize (\<lambda>a. \<lparr>currentSize = Fin 200\<rparr>)
        (new_PaneView 0 \<lparr>o_element = 0, o_minimumSize = None, o_maximumSize = None,
           o_priority = None, o_preferredSize = PString ''  3.5 '', o_snap = None\<rparr>) =
      Some (Fin (7 / 2))"
proof -
  let ?o = "\<lparr>o_element = 0, o_minimumSize = None, o_maximumSize = None,
           o_priority = None, o_preferredSize = PUndefined, o_snap = None\<rparr>"
  let ?h = "\<lambda>a::nat. \<lparr>currentSize = Fin 200\<rparr>"
  have a1: "\<not> endsWith (trim ''42'') ''%''"
    by (simp add: scan_defs)
  have a2: "\<not> endsWith (trim ''42'') ''px''"
    by (simp add: scan_defs)
  have a3: "parseFloat (trim ''42'') = Fin 42"
    by (simp add: scan_defs)
  have b1: "\<not> endsWith (trim ''  3.5 '') ''%''"
    by (simp add: scan_defs)
  have b2: "\<not> endsWith (trim ''  3.5 '') ''px''"
    by (simp add: scan_defs)
  have b3: "parseFloat (trim ''  3.5 '') = Fin (7 / 2)"
    by (simp add: scan_defs)
  have a4: "parseFloat (trim ''42'') \<noteq> NaN"
    using a3 by simp
  have b4: "parseFloat (trim ''  3.5 '') \<noteq> NaN"
    using b3 by simp
  from bare_numeric_is_Fixed [OF a1 a2 a4, of 0 ?o ?h]
    bare_numeric_is_Fixed [OF b1 b2 b4, of 0 ?o ?h]
  show ?thesis
    using a3 b3 by simp
qed

section \<open>The size bounds\<close>

text \<open>After the constructor and any sequence of setter calls, each bound is the value
  last assigned to it, or the default of its setter where that value was no number.\<close>

lemma minimumSize_after_assignments:
  "get_minimumSize (assignments (new_PaneView ls opts) cs) = lastMinimumSize opts cs"
proof (induction cs rule: rev_induct)
  case Nil
  show ?case
    by (simp add: assignments_Nil lastMinimumSize_def minimumAssignments_def pane_defs Let_def)
next
  case (snoc c cs)
  then show ?case
    by (cases c)
      (simp_all add: assignments_snoc lastMinimumSize_def minimumAssignments_def pane_defs
        Let_def split: PreferredSizeDecl.split)
qed

lemma maximumSize_after_assignments:
  "get_maximumSize (assignments (new_PaneView ls opts) cs) = lastMaximumSize opts cs"
proof (induction cs rule: rev_induct)
  case Nil
  show ?case
    by (simp add: assignments_Nil lastMaximumSize_def maximumAssignments_def pane_defs Let_def)
next
  case (snoc c cs)
  then show ?case
    by (cases c)
      (simp_all add: assignments_snoc lastMaximumSize_def maximumAssignments_def pane_defs
        Let_def split: PreferredSizeDecl.split)
qed

text \<open>
  Claim C8 as it is written, that \<open>minimumSize\<close> is at least 0 and \<open>maximumSize\<close> at least
  \<open>minimumSize\<close> at all times, fails: a pane constructed with the maximum 20 and no
  minimum has the minimum 30, and assigning the minimum \<open>-5\<close> stores \<open>-5\<close>.
\<close>

theorem sizes_unchecked_counterexample:
  "\<not> sizesOrdered (new_PaneView 0 \<lparr>o_element = 0, o_minimumSize = None,
        o_maximumSize = Some (Fin 20), o_priority = None, o_preferredSize = PUndefined,
        o_snap = None\<rparr>)
   \<and> \<not> sizesOrdered (assignments (new_PaneView 0 \<lparr>o_element = 0, o_minimumSize = None,
        o_maximumSize = None, o_priority = None, o_preferredSize = PUndefined,
        o_snap = None\<rparr>) [SetMinimumSize (Some (Fin (- 5)))])"
  by (simp add: sizesOrdered_def assignments_def pane_defs Let_def)

text \<open>
  Claim C8, amended: after the constructor and any sequence of setter calls,
  \<open>minimumSize\<close> is the number last assigned to it (30 if what was last assigned is no
  number) and \<open>maximumSize\<close> is the number last assigned to it (infinity if what was last
  assigned is no number); the pane checks neither, so \<open>0 \<le> minimumSize \<le> maximumSize\<close>
  holds exactly when these two numbers satisfy it.
\<close>

theorem sizes_are_the_last_assigned:
  "get_minimumSize (assignments (new_PaneView ls opts) cs) = lastMinimumSize opts cs
   \<and> get_maximumSize (assignments (new_PaneView ls opts) cs) = lastMaximumSize opts cs
   \<and> sizesOrdered (assignments (new_PaneView ls opts) cs) =
       (jle (Fin 0) (lastMinimumSize opts cs)
        \<and> jle (lastMinimumSize opts cs) (lastMaximumSize opts cs))"
  by (simp add: sizesOrdered_def minimumSize_after_assignments maximumSize_after_assignments)

section \<open>Constructor and setter\<close>

text \<open>
  Claim C9: for every declared preferred size (a number, a string or \<open>undefined\<close>), the
  strategy the constructor installs and the strategy a later assignment of the same value
  through the setter installs are the same, so their preferred sizes are equal in every
  layout context.
\<close>

theorem constructor_and_setter_agree:
  "p_layoutStrategy (set_preferredSize v (assignments (new_PaneView ls opts) cs)) =
     p_layoutStrategy (new_PaneView ls (opts\<lparr>o_preferredSize := v\<rparr>))
   \<and> get_preferredSize h (set_preferredSize v (assignments (new_PaneView ls opts) cs)) =
     get_preferredSize h (new_PaneView ls (opts\<lparr>o_preferredSize := v\<rparr>))"
  by (simp add: get_preferredSize_def set_preferredSize_layoutStrategy
      new_PaneView_layoutStrategy assignments_layoutService new_PaneView_layoutService)

section \<open>Defaults\<close>

text \<open>
  Claim C10: a minimum size that is no number (omitted or \<open>undefined\<close>) becomes 30, a
  maximum size that is no number becomes infinity, a snap flag that is no boolean becomes
  false, and an undefined priority becomes \<open>Normal\<close>, both when assigned through the setter
  and when the pane is constructed.
\<close>

theorem PaneView_defaults:
  "get_minimumSize (set_minimumSize None p) = Fin 30
   \<and> get_maximumSize (set_maximumSize None p) = PosInf
   \<and> get_snap (set_snap None p) = False
   \<and> get_priority (set_priority None p) = Some Normal
   \<and> get_minimumSize (new_PaneView ls (opts\<lparr>o_minimumSize := None\<rparr>)) = Fin 30
   \<and> get_maximumSize (new_PaneView ls (opts\<lparr>o_maximumSize := None\<rparr>)) = PosInf
   \<and> get_snap (new_PaneView ls (opts\<lparr>o_snap := None\<rparr>)) = False
   \<and> get_priority (new_PaneView ls (opts\<lparr>o_priority := None\<rparr>)) = Some Normal"
  by (simp add: pane_defs Let_def)

end
